theory Spec2Isabelle
  imports Complex_Main
begin

section \<open>Strings\<close>

text \<open>
  A Python \<open>str\<close> is a sequence of Unicode code points, so a string is a list of code
  points (natural numbers). \<open>len\<close> is \<open>length\<close>, the empty string is \<open>[]\<close>, and a
  string is falsy exactly when it is empty. Literals of the source are written as HOL
  string literals (all of them are ASCII) and embedded with \<open>lit\<close>.
\<close>

type_synonym codepoint = nat
type_synonym str = "codepoint list"

definition lit :: "string \<Rightarrow> str" where
  "lit s = map of_char s"

text \<open>
  \<open>str.isspace\<close> for one code point: the characters Python's \<open>str.strip()\<close> removes
  when called without an argument (bidirectional type WS, B or S, or category Zs).
\<close>

definition isspace :: "codepoint \<Rightarrow> bool" where
  "isspace c =
     ((0x09 \<le> c \<and> c \<le> 0x0D) \<or> (0x1C \<le> c \<and> c \<le> 0x20) \<or> c = 0x85 \<or> c = 0xA0
      \<or> c = 0x1680 \<or> (0x2000 \<le> c \<and> c \<le> 0x200A) \<or> c = 0x2028 \<or> c = 0x2029
      \<or> c = 0x202F \<or> c = 0x205F \<or> c = 0x3000)"

definition lstrip :: "str \<Rightarrow> str" where
  "lstrip s = dropWhile isspace s"

definition rstrip :: "str \<Rightarrow> str" where
  "rstrip s = rev (dropWhile isspace (rev s))"

definition strip :: "str \<Rightarrow> str" where
  "strip s = rstrip (lstrip s)"



text \<open>\<open>sep.join(parts)\<close>.\<close>

fun join :: "str \<Rightarrow> str list \<Rightarrow> str" where
  "join sep [] = []"
| "join sep [x] = x"
| "join sep (x # y # ys) = x @ sep @ join sep (y # ys)"

text \<open>
  \<open>str(n)\<close> for an integer, as an f-string formats it: decimal digits, most significant
  first, with a leading minus sign for a negative number. The interpreter's configurable
  cap on the number of digits of such a conversion is not part of the model.
\<close>

fun digits :: "nat \<Rightarrow> str" where
  "digits n = (if n < 10 then [48 + n] else digits (n div 10) @ [48 + n mod 10])"

declare digits.simps [simp del]

definition str_int :: "int \<Rightarrow> str" where
  "str_int i = (if i < 0 then 45 # digits (nat (- i)) else digits (nat i))"

section \<open>prompts.py\<close>

definition NL :: str where
  "NL = [10]"

definition SUMMARIZE_SYSTEM_PROMPT :: str where
  "SUMMARIZE_SYSTEM_PROMPT =
     lit ''You are an expert note-taking assistant specializing in academic and technical content.'' @ NL @
     NL @
     lit ''Your task is to transform extracted PDF text into well-structured, readable notes in markdown format.'' @ NL @
     NL @
     lit ''Key responsibilities:'' @ NL @
     lit ''1. Fix broken LaTeX/math notation from PDF extraction'' @ NL @
     lit ''2. Organize content hierarchically with clear headers'' @ NL @
     lit ''3. Extract and highlight key concepts, definitions, and formulas'' @ NL @
     lit ''4. Maintain technical accuracy while improving readability'' @ NL @
     lit ''5. Format for Obsidian (markdown with LaTeX support)'' @ NL @
     NL @
     lit ''Guidelines:'' @ NL @
     lit ''- Use proper LaTeX syntax: $inline$ for inline math, $$display$$ for block equations'' @ NL @
     lit ''- Structure with ## headers for main topics, ### for subtopics'' @ NL @
     lit ''- Use bullet points for key points and numbered lists for sequences'' @ NL @
     lit ''- Bold important terms on first mention'' @ NL @
     lit ''- Keep explanations concise but complete'' @ NL @
     lit ''- Preserve all mathematical content accurately'' @ NL @
     lit ''- If text is unclear or corrupted, note it with [unclear: ...]'' @ NL @
     NL @
     lit ''Output format:'' @ NL @
     lit ''- Start with ## Key Concepts section'' @ NL @
     lit ''- Follow with content organized by topic'' @ NL @
     lit ''- End with ## Formulas section if math-heavy'' @ NL @
     NL @
     lit ''Remember: These notes will be used for studying, so clarity and organization are paramount.''"

text \<open>
  \<open>build_summarize_prompt\<close>. The two \<open>if\<close> tests are Python truth tests: \<open>pdf_name\<close>
  is appended when it is neither \<open>None\<close> nor the empty string, \<open>page_number\<close> when it
  is neither \<open>None\<close> nor \<open>0\<close>. \<open>context_parts\<close> is the list after each statement.
\<close>

definition build_summarize_prompt :: "str \<Rightarrow> str option \<Rightarrow> int option \<Rightarrow> str" where
  "build_summarize_prompt text pdf_name page_number =
     (let context_parts0 = [];
          context_parts1 =
            (case pdf_name of
               None \<Rightarrow> context_parts0
             | Some name \<Rightarrow>
                 if name = [] then context_parts0
                 else context_parts0 @ [lit ''Document: '' @ name]);
          context_parts2 =
            (case page_number of
               None \<Rightarrow> context_parts1
             | Some n \<Rightarrow>
                 if n = 0 then context_parts1
                 else context_parts1 @ [lit ''Page: '' @ str_int n]);
          context =
            (if context_parts2 = [] then lit ''Source: PDF page''
             else join NL context_parts2)
      in context @ NL @
         NL @
         lit ''Please create clear, structured notes from this extracted PDF text:'' @ NL @
         NL @
         lit ''---'' @ NL @
         text @ NL @
         lit ''---'' @ NL @
         NL @
         lit ''Generate comprehensive notes following the format specified in your system prompt.'')"

text \<open>
  The part of the prompt that follows the context lines, as the template of
  \<open>build_summarize_prompt\<close> writes it; the theorems about the context lines are stated
  with it.
\<close>

definition after_context :: "str \<Rightarrow> str" where
  "after_context text =
     NL @ NL @
     lit ''Please create clear, structured notes from this extracted PDF text:'' @ NL @
     NL @
     lit ''---'' @ NL @
     text @ NL @
     lit ''---'' @ NL @
     NL @
     lit ''Generate comprehensive notes following the format specified in your system prompt.''"

section \<open>models.py\<close>

text \<open>
  \<open>SummarizeRequest\<close> after validation. The fields are \<open>text\<close>, \<open>pdf_name\<close> and
  \<open>page_number\<close>; they carry the prefix \<open>req_\<close> here.
\<close>

record SummarizeRequest =
  req_text :: str
  req_pdf_name :: "str option"
  req_page_number :: "int option"

record SummarizeResponse =
  summary :: "str option"
  success :: bool
  error :: "str option"


datatype field_error =
  Text_missing
| Text_not_str
| Text_too_short
| Pdf_name_not_str
| Page_number_not_ge_1







section \<open>config.py\<close>

text \<open>
  The settings snapshot. The handler reads it and never writes it, so it is a parameter
  of the handler. \<open>temperature\<close> is a float in the source; it is only passed on to the
  completion call, and no arithmetic is done on it.
\<close>

record Settings =
  openrouter_api_key :: "str option"
  openrouter_base_url :: str
  model_name :: str
  max_tokens :: int
  temperature :: real
  host :: str
  port :: int
  log_level :: str

section \<open>main.py\<close>

text \<open>
  The completion client is the remote service behind
  \<open>client.chat.completions.create\<close>: given the arguments of the call it either raises
  an exception \<open>e\<close> (\<open>Inl (str e)\<close>) or returns a response (\<open>Inr\<close>), of which the
  handler reads \<open>choices[i].message.content\<close> only. A response is therefore the list of
  its choices' contents; a content may be \<open>None\<close>. The global \<open>client\<close> is \<open>None\<close>
  until the lifespan hook has set it.
\<close>

record completion_call =
  call_model :: str
  call_messages :: "(str \<times> str) list"
  call_max_tokens :: int
  call_temperature :: real

type_synonym chat_completion = "str option list"
type_synonym OpenAI = "completion_call \<Rightarrow> str + chat_completion"

datatype http_error =
  HTTPException nat str
| RequestValidationError "field_error list"

text \<open>The arguments of \<open>client.chat.completions.create\<close> in \<open>summarize_text\<close>.\<close>

definition completion_request :: "Settings \<Rightarrow> SummarizeRequest \<Rightarrow> completion_call" where
  "completion_request settings request =
     (let user_prompt =
            build_summarize_prompt (req_text request) (req_pdf_name request)
              (req_page_number request)
      in \<lparr>call_model = model_name settings,
          call_messages =
            [(lit ''system'', SUMMARIZE_SYSTEM_PROMPT), (lit ''user'', user_prompt)],
          call_max_tokens = max_tokens settings,
          call_temperature = temperature settings\<rparr>)"

text \<open>\<open>response.choices[0].message.content\<close>; indexing an empty list raises \<open>IndexError\<close>.\<close>

definition first_choice_content :: "chat_completion \<Rightarrow> str + str option" where
  "first_choice_content choices =
     (case choices of
        [] \<Rightarrow> Inl (lit ''list index out of range'')
      | content # _ \<Rightarrow> Inr content)"

text \<open>
  The body of the \<open>try\<close> block, after the completion call has returned \<open>response\<close>.
  \<open>Inl\<close> is a raised exception's message. \<open>content\<close> is the source's variable
  \<open>summary\<close>; \<open>not summary\<close> holds for \<open>None\<close> and for the empty string.
\<close>

definition response_of_completion :: "chat_completion \<Rightarrow> str + SummarizeResponse" where
  "response_of_completion response =
     (case first_choice_content response of
        Inl e \<Rightarrow> Inl e
      | Inr content \<Rightarrow>
          (case content of
             None \<Rightarrow>
               Inr \<lparr>summary = None, success = False,
                    error = Some (lit ''AI model returned empty response'')\<rparr>
           | Some s \<Rightarrow>
               if s = [] then
                 Inr \<lparr>summary = None, success = False,
                      error = Some (lit ''AI model returned empty response'')\<rparr>
               else
                 Inr \<lparr>summary = Some (strip s), success = True, error = None\<rparr>))"

text \<open>
  \<open>summarize_text\<close>. The result is what the handler raises (\<open>Inl\<close>) or returns
  (\<open>Inr\<close>), paired with the list of calls it made to the completion client. Logging is
  left out.
\<close>

definition summarize_text ::
  "OpenAI option \<Rightarrow> Settings \<Rightarrow> SummarizeRequest \<Rightarrow>
     (http_error + SummarizeResponse) \<times> completion_call list" where
  "summarize_text client settings request =
     (case client of
        None \<Rightarrow> (Inl (HTTPException 500 (lit ''AI service not available'')), [])
      | Some create \<Rightarrow>
          (let call = completion_request settings request;
               tried =
                 (case create call of
                    Inl e \<Rightarrow> Inl e
                  | Inr response \<Rightarrow> response_of_completion response)
           in case tried of
                Inr r \<Rightarrow> (Inr r, [call])
              | Inl e \<Rightarrow>
                  (Inr \<lparr>summary = None, success = False,
                        error = Some (lit ''Summarization failed: '' @ e)\<rparr>,
                   [call])))"


text \<open>
  \<open>status_code\<close> is the status of the framework's default answer to each outcome. The
  encoding of that answer is not modelled: an answer that has to carry an ill-formed
  string cannot be encoded, and what the server sends then is outside the model.
\<close>

fun status_code :: "http_error + SummarizeResponse \<Rightarrow> nat" where
  "status_code (Inl (HTTPException code detail)) = code"
| "status_code (Inl (RequestValidationError errs)) = 422"
| "status_code (Inr r) = 200"

section \<open>Concrete inputs\<close>

text \<open>
  The defaults of \<open>config.py\<close> with an API key, a request, five request bodies, and
  four completion clients: one that answers with a summary, one that answers with a
  single space, one that answers with the empty string, and one whose call raises.
\<close>

definition example_settings :: Settings where
  "example_settings =
     \<lparr>openrouter_api_key = Some (lit ''sk-or-example''),
      openrouter_base_url = lit ''https://openrouter.ai/api/v1'',
      model_name = lit ''google/gemini-flash-1.5-8b'',
      max_tokens = 2000,
      temperature = 3 / 10,
      host = lit ''127.0.0.1'',
      port = 8000,
      log_level = lit ''info''\<rparr>"

definition example_request :: SummarizeRequest where
  "example_request =
     \<lparr>req_text = lit ''Photosynthesis converts light into energy.'',
      req_pdf_name = None, req_page_number = None\<rparr>"






definition summary_client :: OpenAI where
  "summary_client call = Inr [Some (lit '' ## Key Concepts'' @ NL @ lit ''- Light  '' @ NL)]"

definition blank_client :: OpenAI where
  "blank_client call = Inr [Some (lit '' '')]"

definition empty_client :: OpenAI where
  "empty_client call = Inr [Some []]"

definition timeout_client :: OpenAI where
  "timeout_client call = Inl (lit ''timed out'')"

section \<open>Properties of \<open>strip\<close>\<close>

lemma lstrip_decomp: "s = takeWhile isspace s @ lstrip s"
  by (simp add: lstrip_def)

lemma rstrip_decomp: "s = rstrip s @ rev (takeWhile isspace (rev s))"
proof -
  have "rstrip s @ rev (takeWhile isspace (rev s)) =
        rev (takeWhile isspace (rev s) @ dropWhile isspace (rev s))"
    unfolding rstrip_def by (simp only: rev_append)
  then show ?thesis by simp
qed

lemma strip_decomp:
  "\<exists>l r. s = l @ strip s @ r \<and> list_all isspace l \<and> list_all isspace r"
proof -
  let ?l = "takeWhile isspace s"
  let ?r = "rev (takeWhile isspace (rev (lstrip s)))"
  have "s = ?l @ lstrip s" by (rule lstrip_decomp)
  also have "lstrip s = strip s @ ?r" unfolding strip_def by (rule rstrip_decomp)
  finally have "s = ?l @ strip s @ ?r" .
  moreover have "list_all isspace ?l"
    by (simp add: list_all_iff) (meson set_takeWhileD)
  moreover have "list_all isspace ?r"
    by (simp add: list_all_iff) (meson set_takeWhileD)
  ultimately show ?thesis by blast
qed

lemma rstrip_last: "rstrip s \<noteq> [] \<Longrightarrow> \<not> isspace (last (rstrip s))"
  unfolding rstrip_def
  by (metis hd_dropWhile last_rev rev_is_Nil_conv)

lemma rstrip_hd: "rstrip s \<noteq> [] \<Longrightarrow> hd (rstrip s) = hd s"
  by (metis hd_append2 rstrip_decomp)

lemma lstrip_hd: "lstrip s \<noteq> [] \<Longrightarrow> \<not> isspace (hd (lstrip s))"
  unfolding lstrip_def by (rule hd_dropWhile)

lemma strip_ends:
  "strip s = [] \<or> (\<not> isspace (hd (strip s)) \<and> \<not> isspace (last (strip s)))"
proof (cases "strip s = []")
  case True then show ?thesis by simp
next
  case False
  then have ne: "rstrip (lstrip s) \<noteq> []" by (simp add: strip_def)
  then have "lstrip s \<noteq> []" by (auto simp: rstrip_def)
  then have "\<not> isspace (hd (lstrip s))" by (rule lstrip_hd)
  with ne have "\<not> isspace (hd (strip s))" by (simp add: strip_def rstrip_hd)
  moreover from ne have "\<not> isspace (last (strip s))" by (simp add: strip_def rstrip_last)
  ultimately show ?thesis by simp
qed

section \<open>The summarization handler\<close>

lemmas handler_defs =
  summarize_text_def response_of_completion_def first_choice_content_def Let_def

lemmas string_defs = lit_def NL_def

text \<open>
  C1. When the client is initialized and the completion call returns a response whose
  first choice has the non-empty content \<open>S\<close>, the handler returns the envelope with
  \<open>success = True\<close>, \<open>summary = strip S\<close> and \<open>error = None\<close> (status 200), after one
  call to the client. \<open>strip S\<close> is \<open>S\<close> without a prefix and a suffix that consist
  of whitespace only: what lies between them is kept as it is, and what is left neither
  starts nor ends with whitespace.
\<close>

theorem summarize_text_success:
  assumes "create (completion_request settings request) = Inr (Some S # rest)"
    and "S \<noteq> []"
  shows "summarize_text (Some create) settings request =
           (Inr \<lparr>summary = Some (strip S), success = True, error = None\<rparr>,
            [completion_request settings request])
         \<and> status_code (fst (summarize_text (Some create) settings request)) = 200
         \<and> (\<exists>l r. S = l @ strip S @ r \<and> list_all isspace l \<and> list_all isspace r)
         \<and> (strip S = [] \<or> (\<not> isspace (hd (strip S)) \<and> \<not> isspace (last (strip S))))"
  using assms strip_decomp [of S] strip_ends [of S]
  by (simp add: summarize_text_def response_of_completion_def first_choice_content_def Let_def)

theorem summarize_text_success_witness:
  "summary_client (completion_request example_settings example_request) =
     Inr [Some (lit '' ## Key Concepts'' @ NL @ lit ''- Light  '' @ NL)]
   \<and> summarize_text (Some summary_client) example_settings example_request =
       (Inr \<lparr>summary = Some (lit ''## Key Concepts'' @ NL @ lit ''- Light''),
             success = True, error = None\<rparr>,
        [completion_request example_settings example_request])
   \<and> status_code (fst (summarize_text (Some summary_client) example_settings example_request))
       = 200"
proof -
  let ?S = "lit '' ## Key Concepts'' @ NL @ lit ''- Light  '' @ NL"
  have call: "summary_client (completion_request example_settings example_request) =
      Inr (Some ?S # [])"
    by (simp add: summary_client_def)
  have ne: "?S \<noteq> []" by (simp add: string_defs)
  have trimmed: "strip ?S = lit ''## Key Concepts'' @ NL @ lit ''- Light''"
    by (simp add: strip_def lstrip_def rstrip_def string_defs isspace_def)
  show ?thesis
    using summarize_text_success [of summary_client example_settings example_request _ "[]", OF call ne]
      call trimmed
    by simp
qed

text \<open>
  C2. When the client is initialized and the completion call raises an exception with
  message \<open>M\<close>, the handler returns the envelope with \<open>success = False\<close>,
  \<open>summary = None\<close> and \<open>error = "Summarization failed: " + M\<close>, and the status is 200.
\<close>

theorem summarize_text_failure:
  assumes "create (completion_request settings request) = Inl M"
  shows "summarize_text (Some create) settings request =
           (Inr \<lparr>summary = None, success = False,
                 error = Some (lit ''Summarization failed: '' @ M)\<rparr>,
            [completion_request settings request])
         \<and> status_code (fst (summarize_text (Some create) settings request)) = 200"
  using assms by (simp add: summarize_text_def Let_def)

theorem summarize_text_failure_witness:
  "timeout_client (completion_request example_settings example_request) =
     Inl (lit ''timed out'')
   \<and> summarize_text (Some timeout_client) example_settings example_request =
       (Inr \<lparr>summary = None, success = False,
             error = Some (lit ''Summarization failed: timed out'')\<rparr>,
        [completion_request example_settings example_request])
   \<and> status_code (fst (summarize_text (Some timeout_client) example_settings example_request))
       = 200"
proof -
  have call: "timeout_client (completion_request example_settings example_request) =
      Inl (lit ''timed out'')"
    by (simp add: timeout_client_def)
  have msg: "lit ''Summarization failed: '' @ lit ''timed out'' =
      lit ''Summarization failed: timed out''"
    by (simp add: lit_def)
  show ?thesis
    using summarize_text_failure [of timeout_client example_settings example_request, OF call]
      call msg
    by simp
qed

text \<open>
  C3. When the client is initialized and the first choice's content is the empty string,
  the handler returns the envelope with \<open>success = False\<close>, \<open>summary = None\<close> and
  \<open>error = "AI model returned empty response"\<close>, and the status is 200.
\<close>

theorem summarize_text_empty_content:
  assumes "create (completion_request settings request) = Inr (Some [] # rest)"
  shows "summarize_text (Some create) settings request =
           (Inr \<lparr>summary = None, success = False,
                 error = Some (lit ''AI model returned empty response'')\<rparr>,
            [completion_request settings request])
         \<and> status_code (fst (summarize_text (Some create) settings request)) = 200"
  using assms by (simp add: handler_defs)

theorem summarize_text_empty_content_witness:
  "empty_client (completion_request example_settings example_request) = Inr [Some []]
   \<and> summarize_text (Some empty_client) example_settings example_request =
       (Inr \<lparr>summary = None, success = False,
             error = Some (lit ''AI model returned empty response'')\<rparr>,
        [completion_request example_settings example_request])
   \<and> status_code (fst (summarize_text (Some empty_client) example_settings example_request))
       = 200"
proof -
  have call: "empty_client (completion_request example_settings example_request) =
      Inr (Some [] # [])"
    by (simp add: empty_client_def)
  show ?thesis
    using summarize_text_empty_content
        [of empty_client example_settings example_request "[]", OF call] call
    by simp
qed

text \<open>
  C4, as stated, fails: the handler tests the content for emptiness before it strips it,
  so a content of one space gives \<open>success = True\<close> with the empty string as summary.
\<close>

theorem blank_content_counterexample:
  "fst (summarize_text (Some blank_client) example_settings example_request) =
     Inr \<lparr>summary = Some [], success = True, error = None\<rparr>"
  by (simp add: handler_defs blank_client_def strip_def lstrip_def rstrip_def lit_def
      isspace_def)

text \<open>
  C4, amended. For every \<open>SummarizeResponse\<close> the handler returns: \<open>success\<close> is true
  iff the first choice's content obtained from the provider is a non-empty string \<open>S\<close>;
  if \<open>success\<close> is true, \<open>summary\<close> is \<open>strip S\<close> (a string, which is empty when \<open>S\<close> is
  whitespace only) and \<open>error\<close> is \<open>None\<close>; if \<open>success\<close> is false, \<open>summary\<close> is
  \<open>None\<close> and \<open>error\<close> is a string; so exactly one of \<open>summary\<close> and \<open>error\<close> is set.
\<close>

theorem summarize_text_envelope:
  assumes "fst (summarize_text client settings request) = Inr r"
  shows "(success r \<longleftrightarrow>
            (\<exists>create S rest. client = Some create
               \<and> create (completion_request settings request) = Inr (Some S # rest)
               \<and> S \<noteq> []))
         \<and> (success r \<longrightarrow>
              (\<exists>create S rest. client = Some create
                 \<and> create (completion_request settings request) = Inr (Some S # rest)
                 \<and> S \<noteq> [] \<and> summary r = Some (strip S))
              \<and> error r = None)
         \<and> (\<not> success r \<longrightarrow> summary r = None \<and> (\<exists>e. error r = Some e))
         \<and> (summary r = None \<longleftrightarrow> error r \<noteq> None)"
proof (cases client)
  case None
  with assms show ?thesis by (simp add: summarize_text_def)
next
  case (Some create)
  show ?thesis
  proof (cases "create (completion_request settings request)")
    case (Inl e)
    with Some assms show ?thesis by (auto simp: summarize_text_def Let_def)
  next
    case (Inr response)
    show ?thesis
    proof (cases response)
      case Nil
      with Some Inr assms show ?thesis by (auto simp: handler_defs)
    next
      case (Cons content rest)
      show ?thesis
      proof (cases content)
        case None
        with Some Inr Cons assms show ?thesis by (auto simp: handler_defs)
      next
        case (Some S)
        with \<open>client = Some create\<close> Inr Cons assms show ?thesis
          by (cases "S = []") (auto simp: handler_defs)
      qed
    qed
  qed
qed

theorem summarize_text_envelope_witness:
  "fst (summarize_text (Some blank_client) example_settings example_request) =
     Inr \<lparr>summary = Some [], success = True, error = None\<rparr>
   \<and> blank_client (completion_request example_settings example_request) =
       Inr [Some (lit '' '')]
   \<and> strip (lit '' '') = []"
proof -
  have res: "fst (summarize_text (Some blank_client) example_settings example_request) =
      Inr \<lparr>summary = Some [], success = True, error = None\<rparr>"
    by (simp add: handler_defs blank_client_def strip_def lstrip_def rstrip_def lit_def
        isspace_def)
  show ?thesis
    using summarize_text_envelope [OF res]
    by (simp add: res blank_client_def strip_def lstrip_def rstrip_def lit_def isspace_def)
qed

section \<open>The route: validation before the handler\<close>









section \<open>The prompt builder\<close>

text \<open>
  C6. \<open>build_summarize_prompt\<close> is a function of its three arguments alone (it reads no
  other state, so equal inputs give equal prompts), and for every \<open>pdf_name\<close> and
  \<open>page_number\<close> there are a fixed prefix and suffix such that, for every \<open>text\<close>, the
  prompt is the prefix, a line \<open>---\<close>, the text unmodified, a line \<open>---\<close>, and the
  suffix.
\<close>

theorem build_summarize_prompt_embeds_text:
  "\<exists>pre post. \<forall>text.
     build_summarize_prompt text pdf_name page_number =
       pre @ (NL @ lit ''---'' @ NL) @ text @ (NL @ lit ''---'' @ NL) @ post"
proof -
  obtain ctx where
    "\<forall>text. build_summarize_prompt text pdf_name page_number = ctx @ after_context text"
    by (simp add: build_summarize_prompt_def after_context_def Let_def)
  then have "\<forall>text. build_summarize_prompt text pdf_name page_number =
      (ctx @ NL @ NL
        @ lit ''Please create clear, structured notes from this extracted PDF text:'' @ NL)
      @ (NL @ lit ''---'' @ NL) @ text @ (NL @ lit ''---'' @ NL)
      @ (NL @ lit ''Generate comprehensive notes following the format specified in your system prompt.'')"
    by (simp add: after_context_def)
  then show ?thesis by blast
qed

text \<open>
  C8, as stated, fails when \<open>pdf_name\<close> is given as the empty string and \<open>page_number\<close>
  is absent: the context is the fallback line, not the one line \<open>Document: \<close>.
\<close>

theorem empty_pdf_name_counterexample:
  "build_summarize_prompt (lit ''x'') (Some []) None =
     lit ''Source: PDF page'' @ after_context (lit ''x'')
   \<and> build_summarize_prompt (lit ''x'') (Some []) None \<noteq>
     lit ''Document: '' @ after_context (lit ''x'')"
  by (simp add: build_summarize_prompt_def after_context_def Let_def lit_def)

text \<open>
  C8, amended. A \<open>pdf_name\<close> counts as given when it is a non-empty string and a
  \<open>page_number\<close> when it is a non-zero integer. With that reading the prompt starts with
  the context lines of the rule: both given, the two lines \<open>Document: X\<close> and
  \<open>Page: N\<close>; only one given, that one line; neither given, the line
  \<open>Source: PDF page\<close>; the rest of the template follows.
\<close>

theorem context_prefix_rule:
  "(name \<noteq> [] \<and> n \<noteq> 0 \<longrightarrow>
      build_summarize_prompt text (Some name) (Some n) =
        lit ''Document: '' @ name @ NL @ lit ''Page: '' @ str_int n @ after_context text)
   \<and> (name \<noteq> [] \<and> (page_number = None \<or> page_number = Some 0) \<longrightarrow>
      build_summarize_prompt text (Some name) page_number =
        lit ''Document: '' @ name @ after_context text)
   \<and> (n \<noteq> 0 \<and> (pdf_name = None \<or> pdf_name = Some []) \<longrightarrow>
      build_summarize_prompt text pdf_name (Some n) =
        lit ''Page: '' @ str_int n @ after_context text)
   \<and> ((pdf_name = None \<or> pdf_name = Some []) \<and> (page_number = None \<or> page_number = Some 0) \<longrightarrow>
      build_summarize_prompt text pdf_name page_number =
        lit ''Source: PDF page'' @ after_context text)"
  by (auto simp: build_summarize_prompt_def after_context_def Let_def)

theorem context_prefix_rule_witness:
  "build_summarize_prompt (lit ''x'') (Some (lit ''notes.pdf'')) (Some 3) =
     lit ''Document: notes.pdf'' @ NL @ lit ''Page: 3'' @ after_context (lit ''x'')
   \<and> build_summarize_prompt (lit ''x'') (Some (lit ''notes.pdf'')) None =
     lit ''Document: notes.pdf'' @ after_context (lit ''x'')
   \<and> build_summarize_prompt (lit ''x'') None (Some 3) =
     lit ''Page: 3'' @ after_context (lit ''x'')
   \<and> build_summarize_prompt (lit ''x'') None None =
     lit ''Source: PDF page'' @ after_context (lit ''x'')"
proof -
  have ne: "lit ''notes.pdf'' \<noteq> []" by (simp add: lit_def)
  have three: "str_int 3 = lit ''3''" by (simp add: str_int_def lit_def digits.simps)
  show ?thesis
    using context_prefix_rule
      [of "lit ''notes.pdf''" 3 "lit ''x''" None None] ne three
    by (simp add: lit_def)
qed

text \<open>
  C10. With \<open>pdf_name\<close> the empty string and no \<open>page_number\<close>, the prompt starts with
  the fallback line \<open>Source: PDF page\<close> and not with \<open>Document: \<close>; for every
  \<open>page_number\<close>, the empty \<open>pdf_name\<close> gives the prompt that an absent one gives.
\<close>

theorem empty_pdf_name_is_absent:
  "build_summarize_prompt text (Some []) None = lit ''Source: PDF page'' @ after_context text
   \<and> build_summarize_prompt text (Some []) None \<noteq> lit ''Document: '' @ after_context text
   \<and> build_summarize_prompt text (Some []) page_number =
       build_summarize_prompt text None page_number"
  by (simp add: build_summarize_prompt_def after_context_def Let_def lit_def)

end
